theory Spec2Isabelle
  imports Main
begin

section \<open>The radiation alert core of radiacao.py\<close>

text \<open>
  The block \<open>RadiationAlertSystem\<close> holds one process, \<open>check_radiation\<close>, over MyHDL
  signals. A signal has a current value and a next value: reading a signal inside the
  process (\<open>alert_mode != 0\<close>, \<open>accumulated_radiation >= 300\<close>, \<open>int(log_index)\<close>) gives its
  current value, and \<open>sig.next = v\<close> only sets the value the signal takes once the process
  has finished. One tick of the model is one evaluation of \<open>check_radiation\<close> on a new
  reading, followed by that update: every read sees the state before the tick, every
  assigned signal has its assigned value after the tick, and a signal that no branch
  assigns keeps its value. When the simulator runs the process is its own concern and not
  part of this repository.

  The values are \<open>intbv\<close> integers with bounds \<open>min = 0\<close> and an exclusive \<open>max\<close>
  (\<open>intbv(0)[16:]\<close> has \<open>max = 2 ** 16\<close>). Arithmetic on them gives unbounded Python
  integers; assigning a value outside the bounds to \<open>.next\<close> raises \<open>ValueError\<close>, and
  indexing a Python list outside its length raises \<open>IndexError\<close>. Both are results of the
  model. The one-bit signals \<open>alert\<close> and \<open>protection_mode\<close> are booleans (1 is \<open>True\<close>).

  The inputs of a tick are the values of the signals \<open>limit\<close> and \<open>radiation_level\<close>. Both
  are 8-bit signals in the test bench; the model takes any natural number, and a reading
  of 256 or more fails where the source would assign it to an 8-bit log entry.
\<close>

datatype error = ValueError | IndexError

record alert_state =
  accumulated_radiation :: nat
  alert_mode :: nat
  protection_mode :: bool
  exposure_time :: nat
  alert :: bool
  event_radiation_log :: "nat list"
  event_alert_log :: "nat list"
  log_index :: nat

text \<open>The exclusive bounds (\<open>.max\<close>) of the signals that \<open>test_radiation_alert\<close> creates.\<close>

definition radiation_level_max :: nat where
  "radiation_level_max = 2 ^ 8"

definition alert_mode_max :: nat where
  "alert_mode_max = 2 ^ 2"

definition exposure_time_max :: nat where
  "exposure_time_max = 2 ^ 4"

definition accumulated_radiation_max :: nat where
  "accumulated_radiation_max = 2 ^ 16"

text \<open>\<open>sig.next = v\<close> on a signal with bounds \<open>0\<close> and \<open>mx\<close>.\<close>

definition assign_next :: "nat \<Rightarrow> nat \<Rightarrow> error + nat" where
  "assign_next mx v = (if v < mx then Inr v else Inl ValueError)"

definition max_exposure_time :: nat where
  "max_exposure_time = 3"

text \<open>
  \<open>critical_limit = limit + 50\<close> is a Python integer, computed once from the signal \<open>limit\<close>
  when the block is built. The test bench never assigns \<open>limit\<close> afterwards, so the limit
  of a tick is the one the block was built with.
\<close>

definition critical_limit :: "nat \<Rightarrow> nat" where
  "critical_limit limit = limit + 50"

text \<open>The test of line 44, on the current values of the two signals.\<close>

definition trip_condition :: "alert_state \<Rightarrow> bool" where
  "trip_condition s \<longleftrightarrow>
     exposure_time s \<ge> max_exposure_time \<or> accumulated_radiation s \<ge> 300"

text \<open>
  The process, statement by statement. The alert modes are the integers of the source:
  0 safe, 1 moderate, 2 critical. The branch for a moderate reading assigns \<open>alert_mode\<close>
  only, so \<open>protection_mode\<close> keeps its value there. The constants 0, 1 and 2 lie inside
  the bounds of the signals they are assigned to; every computed value goes through
  \<open>assign_next\<close>. The cursor \<open>log_index\<close> has \<open>max = len(event_radiation_log)\<close>.
\<close>

definition check_radiation :: "nat \<Rightarrow> alert_state \<Rightarrow> nat \<Rightarrow> error + alert_state" where
  "check_radiation limit s radiation_level =
    (let new_accumulated = accumulated_radiation s + radiation_level in
     case (if new_accumulated < accumulated_radiation_max
           then assign_next accumulated_radiation_max new_accumulated
           else assign_next accumulated_radiation_max (accumulated_radiation_max - 1)) of
       Inl e \<Rightarrow> Inl e
     | Inr acc' \<Rightarrow>
        (let (mode', prot') =
           (if radiation_level > critical_limit limit then (2, True)
            else if radiation_level > limit then (1, protection_mode s)
            else (0, False)) in
         (case (if alert_mode s \<noteq> 0
                then assign_next exposure_time_max (exposure_time s + 1)
                else Inr 0) of
            Inl e \<Rightarrow> Inl e
          | Inr exp' \<Rightarrow>
             (let s1 = s\<lparr>accumulated_radiation := acc', alert_mode := mode',
                        protection_mode := prot', exposure_time := exp'\<rparr> in
              if trip_condition s then
                (if log_index s < length (event_radiation_log s) then
                   (case assign_next radiation_level_max radiation_level of
                      Inl e \<Rightarrow> Inl e
                    | Inr rad_entry \<Rightarrow>
                       (if log_index s < length (event_alert_log s) then
                          (case assign_next alert_mode_max (alert_mode s) of
                             Inl e \<Rightarrow> Inl e
                           | Inr mode_entry \<Rightarrow>
                               Inr (s1\<lparr>alert := True,
                                 event_radiation_log :=
                                   (event_radiation_log s)[log_index s := rad_entry],
                                 event_alert_log :=
                                   (event_alert_log s)[log_index s := mode_entry],
                                 log_index :=
                                   (log_index s + 1) mod length (event_radiation_log s)\<rparr>))
                        else Inl IndexError))
                 else Inl IndexError)
              else Inr (s1\<lparr>alert := False\<rparr>)))))"

text \<open>
  The signals as \<open>test_radiation_alert\<close> creates them: every value 0, two logs of ten
  entries. The test bench drives the block with \<open>limit = 100\<close>.
\<close>

definition initial_state :: alert_state where
  "initial_state =
     \<lparr>accumulated_radiation = 0, alert_mode = 0, protection_mode = False,
      exposure_time = 0, alert = False,
      event_radiation_log = replicate 10 0, event_alert_log = replicate 10 0,
      log_index = 0\<rparr>"

text \<open>
  One reading per tick; an exception ends the run. The stimulus of the test bench stops
  at the first tick that sets \<open>alert\<close>; the block itself has no such stop, and a run here
  is any list of readings.
\<close>

fun run :: "nat \<Rightarrow> alert_state \<Rightarrow> nat list \<Rightarrow> error + alert_state" where
  "run limit s [] = Inr s"
| "run limit s (r # rs) =
     (case check_radiation limit s r of Inl e \<Rightarrow> Inl e | Inr s' \<Rightarrow> run limit s' rs)"

text \<open>The states after each tick of a run, in order.\<close>

fun run_trace :: "nat \<Rightarrow> alert_state \<Rightarrow> nat list \<Rightarrow> error + alert_state list" where
  "run_trace limit s [] = Inr []"
| "run_trace limit s (r # rs) =
     (case check_radiation limit s r of
        Inl e \<Rightarrow> Inl e
      | Inr s' \<Rightarrow>
          (case run_trace limit s' rs of Inl e \<Rightarrow> Inl e | Inr ss \<Rightarrow> Inr (s' # ss)))"

text \<open>
  A state that the signals can hold: every value inside the bounds of its signal, the two
  logs of one length, the cursor inside them.
\<close>

definition representable :: "alert_state \<Rightarrow> bool" where
  "representable s \<longleftrightarrow>
     accumulated_radiation s < accumulated_radiation_max \<and>
     alert_mode s < alert_mode_max \<and>
     exposure_time s < exposure_time_max \<and>
     length (event_alert_log s) = length (event_radiation_log s) \<and>
     log_index s < length (event_radiation_log s) \<and>
     list_all (\<lambda>v. v < radiation_level_max) (event_radiation_log s) \<and>
     list_all (\<lambda>v. v < alert_mode_max) (event_alert_log s)"

text \<open>
  The records a run writes, oldest first: one pair per tick that takes the branch of
  line 45, holding what lines 46 and 47 assign.
\<close>

fun trip_entries :: "nat \<Rightarrow> alert_state \<Rightarrow> nat list \<Rightarrow> (nat \<times> nat) list" where
  "trip_entries limit s [] = []"
| "trip_entries limit s (r # rs) =
     (case check_radiation limit s r of
        Inl e \<Rightarrow> []
      | Inr s' \<Rightarrow>
          (if trip_condition s then [(r, alert_mode s)] else []) @ trip_entries limit s' rs)"

section \<open>One tick, field by field\<close>

lemmas signal_bounds =
  radiation_level_max_def alert_mode_max_def exposure_time_max_def
  accumulated_radiation_max_def max_exposure_time_def critical_limit_def

lemmas tick_eval =
  check_radiation_def assign_next_def trip_condition_def initial_state_def signal_bounds

lemma tick_accumulated:
  "check_radiation limit s r = Inr s' \<Longrightarrow>
   accumulated_radiation s' =
     (if accumulated_radiation s + r < accumulated_radiation_max
      then accumulated_radiation s + r else accumulated_radiation_max - 1)"
  by (auto simp: check_radiation_def assign_next_def Let_def accumulated_radiation_max_def
      split: if_splits sum.splits prod.splits)

lemma tick_alert_mode:
  "check_radiation limit s r = Inr s' \<Longrightarrow>
   alert_mode s' = (if r > limit + 50 then 2 else if r > limit then 1 else 0)"
  by (auto simp: check_radiation_def assign_next_def Let_def critical_limit_def
      split: if_splits sum.splits prod.splits)

lemma tick_protection_mode:
  "check_radiation limit s r = Inr s' \<Longrightarrow>
   protection_mode s' =
     (if r > limit + 50 then True else if r > limit then protection_mode s else False)"
  by (auto simp: check_radiation_def assign_next_def Let_def critical_limit_def
      split: if_splits sum.splits prod.splits)

lemma tick_exposure_time:
  "check_radiation limit s r = Inr s' \<Longrightarrow>
   exposure_time s' = (if alert_mode s \<noteq> 0 then exposure_time s + 1 else 0) \<and>
   exposure_time s' < exposure_time_max"
  by (auto simp: check_radiation_def assign_next_def Let_def exposure_time_max_def
      split: if_splits sum.splits prod.splits)

lemma tick_alert:
  "check_radiation limit s r = Inr s' \<Longrightarrow> alert s' = trip_condition s"
  by (auto simp: check_radiation_def assign_next_def Let_def
      split: if_splits sum.splits prod.splits)

lemma tick_trip_log:
  "check_radiation limit s r = Inr s' \<Longrightarrow> trip_condition s \<Longrightarrow>
   event_radiation_log s' = (event_radiation_log s)[log_index s := r] \<and>
   event_alert_log s' = (event_alert_log s)[log_index s := alert_mode s] \<and>
   log_index s' = (log_index s + 1) mod length (event_radiation_log s) \<and>
   log_index s < length (event_radiation_log s) \<and>
   log_index s < length (event_alert_log s) \<and>
   r < radiation_level_max \<and> alert_mode s < alert_mode_max"
  by (auto simp: check_radiation_def assign_next_def Let_def
      split: if_splits sum.splits prod.splits)

lemma tick_no_trip_log:
  "check_radiation limit s r = Inr s' \<Longrightarrow> \<not> trip_condition s \<Longrightarrow>
   event_radiation_log s' = event_radiation_log s \<and>
   event_alert_log s' = event_alert_log s \<and>
   log_index s' = log_index s"
  by (auto simp: check_radiation_def assign_next_def Let_def
      split: if_splits sum.splits prod.splits)

lemma tick_raises_when_counter_full:
  "alert_mode s \<noteq> 0 \<Longrightarrow> exposure_time_max \<le> exposure_time s + 1 \<Longrightarrow>
   check_radiation limit s r = Inl ValueError"
  by (auto simp: check_radiation_def assign_next_def Let_def accumulated_radiation_max_def
      split: if_splits sum.splits prod.splits)

lemma list_all_update:
  "list_all P xs \<Longrightarrow> P v \<Longrightarrow> list_all P (xs[i := v])"
  by (induction xs arbitrary: i) (auto split: nat.splits)

lemma tick_representable:
  assumes "check_radiation limit s r = Inr s'" and "representable s"
  shows "representable s'"
proof (cases "trip_condition s")
  case True
  note log = tick_trip_log [OF assms(1) True]
  from log have "0 < length (event_radiation_log s)"
    by linarith
  with log have "log_index s' < length (event_radiation_log s')"
    by simp
  moreover from assms(2) log
  have "list_all (\<lambda>v. v < radiation_level_max) (event_radiation_log s')"
    by (simp add: representable_def list_all_update)
  moreover from assms(2) log
  have "list_all (\<lambda>v. v < alert_mode_max) (event_alert_log s')"
    by (simp add: representable_def list_all_update)
  moreover from assms(2) log
  have "length (event_alert_log s') = length (event_radiation_log s')"
    by (simp add: representable_def)
  ultimately show ?thesis
    using tick_accumulated [OF assms(1)] tick_alert_mode [OF assms(1)]
      tick_exposure_time [OF assms(1)]
    by (simp add: representable_def accumulated_radiation_max_def alert_mode_max_def)
next
  case False
  note log = tick_no_trip_log [OF assms(1) False]
  from assms(2) log show ?thesis
    using tick_accumulated [OF assms(1)] tick_alert_mode [OF assms(1)]
      tick_exposure_time [OF assms(1)]
    by (simp add: representable_def accumulated_radiation_max_def alert_mode_max_def)
qed

text \<open>
  The only assignment that can leave its bounds is \<open>exposure_time.next = exposure_time + 1\<close>:
  a tick on a representable state returns unless the counter is at 15 and the mode
  before the tick is not safe.
\<close>

lemma tick_returns:
  assumes "representable s" and "r < radiation_level_max"
    and "alert_mode s = 0 \<or> exposure_time s + 1 < exposure_time_max"
  shows "\<exists>s'. check_radiation limit s r = Inr s'"
  using assms
  by (auto simp: check_radiation_def assign_next_def Let_def representable_def
      accumulated_radiation_max_def split: prod.splits)

lemma tick_returns_no_trip:
  assumes "representable s" and "\<not> trip_condition s"
  shows "\<exists>s'. check_radiation limit s r = Inr s'"
  using assms
  by (auto simp: check_radiation_def assign_next_def Let_def representable_def
      trip_condition_def signal_bounds split: prod.splits)

section \<open>Runs\<close>

lemma run_append:
  "run limit s (rs @ rs') =
     (case run limit s rs of Inl e \<Rightarrow> Inl e | Inr s1 \<Rightarrow> run limit s1 rs')"
  by (induction rs arbitrary: s) (auto split: sum.splits)

lemma run_snoc:
  "run limit s (rs @ [r]) =
     (case run limit s rs of Inl e \<Rightarrow> Inl e | Inr s1 \<Rightarrow> check_radiation limit s1 r)"
  by (simp add: run_append split: sum.splits)

lemma run_snoc_Inr:
  assumes "run limit s (rs @ [r]) = Inr s'"
  obtains s1 where "run limit s rs = Inr s1" and "check_radiation limit s1 r = Inr s'"
  using assms by (auto simp: run_snoc split: sum.splits)

lemma run_representable:
  "representable s \<Longrightarrow> run limit s rs = Inr s' \<Longrightarrow> representable s'"
  by (induction rs arbitrary: s) (auto split: sum.splits dest: tick_representable)

lemma tick_log_length:
  "check_radiation limit s r = Inr s' \<Longrightarrow>
   length (event_radiation_log s') = length (event_radiation_log s) \<and>
   length (event_alert_log s') = length (event_alert_log s)"
  using tick_trip_log [of limit s r s'] tick_no_trip_log [of limit s r s']
  by (cases "trip_condition s") simp_all

lemma run_log_length:
  "run limit s rs = Inr s' \<Longrightarrow>
   length (event_radiation_log s') = length (event_radiation_log s) \<and>
   length (event_alert_log s') = length (event_alert_log s)"
  by (induction rs arbitrary: s) (auto split: sum.splits dest: tick_log_length)

lemma trip_entries_snoc:
  "run limit s rs = Inr s1 \<Longrightarrow> check_radiation limit s1 r = Inr s2 \<Longrightarrow>
   trip_entries limit s (rs @ [r]) =
     trip_entries limit s rs @ (if trip_condition s1 then [(r, alert_mode s1)] else [])"
  by (induction rs arbitrary: s) (auto split: sum.splits)

lemma ring_positions_distinct:
  fixes i a b c :: nat
  assumes "a < b" and "b < a + c"
  shows "(i + a) mod c \<noteq> (i + b) mod c"
proof
  assume "(i + a) mod c = (i + b) mod c"
  then have "(i + b) mod c = (i + a) mod c"
    by simp
  moreover have "i + a \<le> i + b"
    using assms by simp
  ultimately have "c dvd (i + b) - (i + a)"
    by (simp add: mod_eq_dvd_iff_nat)
  then have "c dvd b - a"
    by simp
  moreover have "0 < b - a" and "b - a < c"
    using assms by auto
  ultimately show False
    using nat_dvd_not_less by blast
qed

lemma ring_invariant:
  assumes "representable s" and "run limit s rs = Inr s'"
  shows "log_index s' =
           (log_index s + length (trip_entries limit s rs)) mod length (event_radiation_log s) \<and>
         (\<forall>m < length (trip_entries limit s rs).
            length (trip_entries limit s rs) \<le> m + length (event_radiation_log s) \<longrightarrow>
            event_radiation_log s' ! ((log_index s + m) mod length (event_radiation_log s)) =
              fst (trip_entries limit s rs ! m) \<and>
            event_alert_log s' ! ((log_index s + m) mod length (event_radiation_log s)) =
              snd (trip_entries limit s rs ! m)) \<and>
         (\<forall>i < length (event_radiation_log s).
            (\<forall>m < length (trip_entries limit s rs).
               (log_index s + m) mod length (event_radiation_log s) \<noteq> i) \<longrightarrow>
            event_radiation_log s' ! i = event_radiation_log s ! i \<and>
            event_alert_log s' ! i = event_alert_log s ! i)"
  using assms(2)
proof (induction rs arbitrary: s' rule: rev_induct)
  case Nil
  with assms(1) show ?case
    by (simp add: representable_def)
next
  case (snoc r rs)
  from snoc.prems obtain s1
    where run1: "run limit s rs = Inr s1" and tick: "check_radiation limit s1 r = Inr s'"
    by (rule run_snoc_Inr)
  let ?C = "length (event_radiation_log s)"
  let ?E1 = "trip_entries limit s rs"
  let ?i0 = "log_index s"
  note IH = snoc.IH [OF run1]
  have rep1: "representable s1"
    using assms(1) run1 by (rule run_representable)
  have len1: "length (event_radiation_log s1) = ?C" "length (event_alert_log s1) = ?C"
    using run_log_length [OF run1] assms(1) by (simp_all add: representable_def)
  have entries: "trip_entries limit s (rs @ [r]) =
      ?E1 @ (if trip_condition s1 then [(r, alert_mode s1)] else [])"
    using run1 tick by (rule trip_entries_snoc)
  show ?case
  proof (cases "trip_condition s1")
    case False
    with entries IH tick_no_trip_log [OF tick False] show ?thesis
      by simp
  next
    case True
    note log = tick_trip_log [OF tick True]
    let ?i1 = "log_index s1"
    have i1: "?i1 = (?i0 + length ?E1) mod ?C" and i1_less: "?i1 < ?C"
      using IH log len1 by simp_all
    have E: "trip_entries limit s (rs @ [r]) = ?E1 @ [(r, alert_mode s1)]"
      using entries True by simp
    have cursor: "log_index s' = (?i0 + length (?E1 @ [(r, alert_mode s1)])) mod ?C"
      using log len1 i1 by (simp add: mod_Suc_eq)
    have recent: "event_radiation_log s' ! ((?i0 + m) mod ?C) =
          fst ((?E1 @ [(r, alert_mode s1)]) ! m) \<and>
        event_alert_log s' ! ((?i0 + m) mod ?C) =
          snd ((?E1 @ [(r, alert_mode s1)]) ! m)"
      if m: "m < length (?E1 @ [(r, alert_mode s1)])"
        and window: "length (?E1 @ [(r, alert_mode s1)]) \<le> m + ?C" for m
    proof (cases "m = length ?E1")
      case True
      with log len1 i1 i1_less show ?thesis
        by simp
    next
      case False
      with m have m1: "m < length ?E1"
        by simp
      moreover from window have "length ?E1 < m + ?C"
        by simp
      ultimately have "(?i0 + m) mod ?C \<noteq> ?i1"
        unfolding i1 by (rule ring_positions_distinct)
      moreover from IH m1 window
      have "event_radiation_log s1 ! ((?i0 + m) mod ?C) = fst (?E1 ! m) \<and>
          event_alert_log s1 ! ((?i0 + m) mod ?C) = snd (?E1 ! m)"
        by simp
      ultimately show ?thesis
        using log m1 by (simp add: nth_append)
    qed
    have untouched: "event_radiation_log s' ! i = event_radiation_log s ! i \<and>
        event_alert_log s' ! i = event_alert_log s ! i"
      if i: "i < ?C"
        and free: "\<forall>m < length (?E1 @ [(r, alert_mode s1)]). (?i0 + m) mod ?C \<noteq> i" for i
    proof -
      from free have "(?i0 + length ?E1) mod ?C \<noteq> i"
        by simp
      with i1 have "?i1 \<noteq> i"
        by simp
      moreover from free have "\<forall>m < length ?E1. (?i0 + m) mod ?C \<noteq> i"
        by simp
      with IH i have "event_radiation_log s1 ! i = event_radiation_log s ! i \<and>
          event_alert_log s1 ! i = event_alert_log s ! i"
        by simp
      ultimately show ?thesis
        using log by simp
    qed
    from cursor recent untouched show ?thesis
      unfolding E by blast
  qed
qed


lemma ring_last_write:
  fixes i0 m n c :: nat
  assumes "m < n" and "0 < c"
  obtains m' where "m' < n" and "n \<le> m' + c" and "(i0 + m') mod c = (i0 + m) mod c"
proof -
  define q where "q = (n - 1 - m) div c"
  define d where "d = (n - 1 - m) mod c"
  have split: "n - 1 - m = c * q + d"
    by (simp add: q_def d_def)
  have d: "d < c"
    using assms(2) by (simp add: d_def)
  have "m + c * q < n"
    using split assms(1) by linarith
  moreover have "n \<le> m + c * q + c"
    using split d by linarith
  moreover have "(i0 + (m + c * q)) mod c = (i0 + m) mod c"
    by (simp add: add.assoc [symmetric])
  ultimately show thesis
    by (rule that)
qed

lemma ring_entry_pairs:
  assumes "representable s" and "run limit s rs = Inr s'"
    and "i < length (event_radiation_log s)"
  shows "(\<exists>m < length (trip_entries limit s rs).
            (log_index s + m) mod length (event_radiation_log s) = i \<and>
            length (trip_entries limit s rs) \<le> m + length (event_radiation_log s) \<and>
            (event_radiation_log s' ! i, event_alert_log s' ! i) =
              trip_entries limit s rs ! m) \<or>
         ((\<forall>m < length (trip_entries limit s rs).
            (log_index s + m) mod length (event_radiation_log s) \<noteq> i) \<and>
          event_radiation_log s' ! i = event_radiation_log s ! i \<and>
          event_alert_log s' ! i = event_alert_log s ! i)"
proof (cases "\<exists>m < length (trip_entries limit s rs).
    (log_index s + m) mod length (event_radiation_log s) = i")
  case True
  then obtain m where m: "m < length (trip_entries limit s rs)"
    and pos: "(log_index s + m) mod length (event_radiation_log s) = i"
    by blast
  from assms(3) have "0 < length (event_radiation_log s)"
    by linarith
  with m obtain m' where m': "m' < length (trip_entries limit s rs)"
    and last: "length (trip_entries limit s rs) \<le> m' + length (event_radiation_log s)"
    and same: "(log_index s + m') mod length (event_radiation_log s) =
      (log_index s + m) mod length (event_radiation_log s)"
    by (rule ring_last_write)
  from ring_invariant [OF assms(1,2)] m' last same pos
  have "event_radiation_log s' ! i = fst (trip_entries limit s rs ! m') \<and>
      event_alert_log s' ! i = snd (trip_entries limit s rs ! m')"
    by auto
  then have "(event_radiation_log s' ! i, event_alert_log s' ! i) =
      trip_entries limit s rs ! m'"
    by (simp add: prod_eq_iff)
  with m' last same pos show ?thesis
    by auto
next
  case False
  with ring_invariant [OF assms(1,2)] assms(3) show ?thesis
    by auto
qed

lemma ring_wraparound:
  assumes "representable s" and "log_index s = 0" and "run limit s rs = Inr s'"
    and "length (trip_entries limit s rs) = length (event_radiation_log s) + k"
    and "k < length (event_radiation_log s)"
  shows "log_index s' = k \<and>
         rotate k (zip (event_radiation_log s') (event_alert_log s')) =
           drop k (trip_entries limit s rs)"
proof -
  let ?C = "length (event_radiation_log s)"
  let ?E = "trip_entries limit s rs"
  note ring = ring_invariant [OF assms(1,3)]
  have len: "length (event_radiation_log s') = ?C" "length (event_alert_log s') = ?C"
    using run_log_length [OF assms(3)] assms(1) by (simp_all add: representable_def)
  have cursor: "log_index s' = k"
    using ring assms(2,4,5) by simp
  have "rotate k (zip (event_radiation_log s') (event_alert_log s')) ! j = drop k ?E ! j"
    if j: "j < ?C" for j
  proof -
    from j have "0 < ?C"
      by linarith
    then have pos: "(k + j) mod ?C < ?C"
      by (rule mod_less_divisor)
    have "rotate k (zip (event_radiation_log s') (event_alert_log s')) ! j =
        zip (event_radiation_log s') (event_alert_log s') ! ((k + j) mod ?C)"
      using j len by (simp add: nth_rotate)
    also have "\<dots> = (event_radiation_log s' ! ((k + j) mod ?C),
        event_alert_log s' ! ((k + j) mod ?C))"
      using pos len by simp
    also have "\<dots> = ?E ! (k + j)"
      using ring assms(2,4) j by (simp add: prod_eq_iff)
    also have "\<dots> = drop k ?E ! j"
      using assms(4) j by simp
    finally show ?thesis .
  qed
  moreover have "length (rotate k (zip (event_radiation_log s') (event_alert_log s'))) = ?C"
    using len by simp
  moreover have "length (drop k ?E) = ?C"
    using assms(4) by simp
  ultimately have "rotate k (zip (event_radiation_log s') (event_alert_log s')) = drop k ?E"
    by (simp add: list_eq_iff_nth_eq)
  with cursor show ?thesis
    by simp
qed


lemma tick_accumulated_min:
  "check_radiation limit s r = Inr s' \<Longrightarrow>
   accumulated_radiation s' = min (accumulated_radiation s + r) 65535"
  by (auto simp: accumulated_radiation_max_def dest!: tick_accumulated split: if_splits)

lemma run_accumulated_mono:
  "representable s \<Longrightarrow> run limit s rs = Inr s' \<Longrightarrow>
   accumulated_radiation s \<le> accumulated_radiation s' \<and> accumulated_radiation s' \<le> 65535"
proof (induction rs arbitrary: s)
  case Nil
  then show ?case
    by (simp add: representable_def accumulated_radiation_max_def)
next
  case (Cons r rs)
  from Cons.prems(2) obtain s1
    where tick: "check_radiation limit s r = Inr s1" and rest: "run limit s1 rs = Inr s'"
    by (auto split: sum.splits)
  from tick Cons.prems(1) have "representable s1"
    by (rule tick_representable)
  from Cons.IH [OF this rest] tick_accumulated_min [OF tick] Cons.prems(1) show ?case
    by (auto simp: representable_def accumulated_radiation_max_def min_def split: if_splits)
qed

lemma run_safe_readings:
  assumes "r \<le> limit" and "r < radiation_level_max"
  shows "representable s \<Longrightarrow> alert_mode s = 0 \<Longrightarrow>
    \<exists>s'. run limit s (replicate n r) = Inr s' \<and>
      accumulated_radiation s' = min (accumulated_radiation s + n * r) 65535"
proof (induction n arbitrary: s)
  case 0
  then show ?case
    by (simp add: representable_def accumulated_radiation_max_def)
next
  case (Suc n)
  from Suc.prems assms(2) obtain s1 where tick: "check_radiation limit s r = Inr s1"
    using tick_returns [of s r limit] by auto
  from tick Suc.prems(1) have rep1: "representable s1"
    by (rule tick_representable)
  from tick_alert_mode [OF tick] assms(1) have safe1: "alert_mode s1 = 0"
    by simp
  from Suc.IH [OF rep1 safe1] obtain s'
    where rest: "run limit s1 (replicate n r) = Inr s'"
      and acc: "accumulated_radiation s' = min (accumulated_radiation s1 + n * r) 65535"
    by blast
  from acc tick_accumulated_min [OF tick]
  have "accumulated_radiation s' = min (accumulated_radiation s + Suc n * r) 65535"
    by simp
  with tick rest show ?case
    by simp
qed

lemma run_exposure_dose:
  assumes "100 \<le> limit"
  shows "run limit initial_state rs = Inr s \<Longrightarrow>
    101 * (exposure_time s + (if alert_mode s \<noteq> 0 then 1 else 0)) \<le> accumulated_radiation s"
proof (induction rs arbitrary: s rule: rev_induct)
  case Nil
  then show ?case
    by (auto simp: initial_state_def)
next
  case (snoc r rs)
  from snoc.prems obtain s1
    where run1: "run limit initial_state rs = Inr s1"
      and tick: "check_radiation limit s1 r = Inr s"
    by (rule run_snoc_Inr)
  note IH = snoc.IH [OF run1]
  note exposure = tick_exposure_time [OF tick]
  note mode = tick_alert_mode [OF tick]
  note acc = tick_accumulated_min [OF tick]
  show ?case
  proof (cases "accumulated_radiation s1 + r \<le> 65535")
    case True
    with IH exposure mode acc assms show ?thesis
      by (auto split: if_splits)
  next
    case False
    with acc have "accumulated_radiation s = 65535"
      by simp
    with exposure show ?thesis
      by (simp add: exposure_time_max_def)
  qed
qed

section \<open>Concrete ticks of the test bench\<close>

lemma initial_logs: "replicate 10 (0::nat) = [0, 0, 0, 0, 0, 0, 0, 0, 0, 0]"
  by (simp add: numeral_eq_Suc)

lemma tick_initial_200:
  "check_radiation 100 initial_state 200 =
     Inr (initial_state\<lparr>accumulated_radiation := 200, alert_mode := 2,
            protection_mode := True\<rparr>)"
  by (simp add: tick_eval)

lemma tick_critical_120:
  "check_radiation 100
     (initial_state\<lparr>accumulated_radiation := 200, alert_mode := 2, protection_mode := True\<rparr>)
     120 =
     Inr (initial_state\<lparr>accumulated_radiation := 320, alert_mode := 1,
            protection_mode := True, exposure_time := 1\<rparr>)"
  by (simp add: tick_eval)

lemma tick_270_90:
  "check_radiation 100 (initial_state\<lparr>accumulated_radiation := 270, alert_mode := 1\<rparr>) 90 =
     Inr (initial_state\<lparr>accumulated_radiation := 360, alert_mode := 0,
            exposure_time := 1\<rparr>)"
  by (simp add: tick_eval)

lemma tick_360_200:
  "check_radiation 100
     (initial_state\<lparr>accumulated_radiation := 360, alert_mode := 0, exposure_time := 1\<rparr>)
     200 =
     Inr (initial_state\<lparr>accumulated_radiation := 560, alert_mode := 2,
            protection_mode := True, exposure_time := 0, alert := True,
            event_radiation_log := [200, 0, 0, 0, 0, 0, 0, 0, 0, 0],
            log_index := 1\<rparr>)"
  by (simp add: tick_eval initial_logs)

lemma tick_full_exposure_120:
  "check_radiation 100 (initial_state\<lparr>alert_mode := 1, exposure_time := 15\<rparr>) 120 =
     Inl ValueError"
  by (simp add: tick_eval)

lemma representable_initial: "representable initial_state"
  by (simp add: representable_def initial_state_def signal_bounds initial_logs)

lemma representable_full_exposure:
  "representable (initial_state\<lparr>alert_mode := 1, exposure_time := 15\<rparr>)"
  by (simp add: representable_def initial_state_def signal_bounds initial_logs)

lemma run_seventeen_moderate:
  "run 100 initial_state
     [120, 120, 120, 120, 120, 120, 120, 120, 120, 120, 120, 120, 120, 120, 120, 120, 120] =
     Inl ValueError"
  by (simp add: tick_eval initial_logs)

lemma trace_default_scenario:
  "run_trace 100 initial_state [45, 75, 150, 90, 200] =
     Inr [initial_state\<lparr>accumulated_radiation := 45\<rparr>,
          initial_state\<lparr>accumulated_radiation := 120\<rparr>,
          initial_state\<lparr>accumulated_radiation := 270, alert_mode := 1\<rparr>,
          initial_state\<lparr>accumulated_radiation := 360, exposure_time := 1\<rparr>,
          initial_state\<lparr>accumulated_radiation := 560, alert_mode := 2,
            protection_mode := True, alert := True,
            event_radiation_log := [200, 0, 0, 0, 0, 0, 0, 0, 0, 0],
            log_index := 1\<rparr>]"
  by (simp add: tick_eval initial_logs)

lemma run_five_readings:
  "run 100 initial_state ([45, 75, 150] @ [90, 200]) =
     Inr (initial_state\<lparr>accumulated_radiation := 560, alert_mode := 2,
            protection_mode := True, alert := True,
            event_radiation_log := [200, 0, 0, 0, 0, 0, 0, 0, 0, 0],
            log_index := 1\<rparr>)"
  by (simp add: tick_eval initial_logs)

lemma run_three_readings:
  "run 100 initial_state [45, 75, 150] =
     Inr (initial_state\<lparr>accumulated_radiation := 270, alert_mode := 1\<rparr>)"
  by (simp add: tick_eval initial_logs)

lemma run_eleven_trips:
  "run 100 (initial_state\<lparr>accumulated_radiation := 300\<rparr>)
     [160, 1, 120, 2, 3, 4, 5, 6, 7, 8, 9] =
     Inr (initial_state\<lparr>accumulated_radiation := 625, exposure_time := 0, alert := True,
            event_radiation_log := [9, 1, 120, 2, 3, 4, 5, 6, 7, 8],
            event_alert_log := [0, 2, 0, 1, 0, 0, 0, 0, 0, 0],
            log_index := 1\<rparr>)"
  by (simp add: tick_eval initial_logs)

lemma entries_eleven_trips:
  "trip_entries 100 (initial_state\<lparr>accumulated_radiation := 300\<rparr>)
     [160, 1, 120, 2, 3, 4, 5, 6, 7, 8, 9] =
     [(160, 0), (1, 2), (120, 0), (2, 1), (3, 0), (4, 0), (5, 0), (6, 0), (7, 0), (8, 0),
      (9, 0)]"
  by (simp add: tick_eval initial_logs)

lemma representable_300:
  "representable (initial_state\<lparr>accumulated_radiation := 300\<rparr>)"
  by (simp add: representable_def initial_state_def signal_bounds initial_logs)

lemma saturating_run:
  "\<exists>s'. run 100 initial_state (replicate 656 100) = Inr s' \<and>
     accumulated_radiation s' = 65535"
  using run_safe_readings [of 100 100 initial_state 656] representable_initial
  by (simp add: initial_state_def radiation_level_max_def)

lemma tick_initial_45:
  "check_radiation 100 initial_state 45 = Inr (initial_state\<lparr>accumulated_radiation := 45\<rparr>)"
  by (simp add: tick_eval)

lemma tick_initial_150:
  "check_radiation 100 initial_state 150 =
     Inr (initial_state\<lparr>accumulated_radiation := 150, alert_mode := 1\<rparr>)"
  by (simp add: tick_eval)

lemma representable_360:
  "representable
     (initial_state\<lparr>accumulated_radiation := 360, alert_mode := 0, exposure_time := 1\<rparr>)"
  by (simp add: representable_def initial_state_def signal_bounds initial_logs)

lemma run_limit_10:
  "run 10 initial_state [11, 11, 11, 11, 0] =
     Inr (initial_state\<lparr>accumulated_radiation := 44, exposure_time := 4, alert := True,
            event_alert_log := [1, 0, 0, 0, 0, 0, 0, 0, 0, 0], log_index := 1\<rparr>)"
  by (simp add: tick_eval initial_logs)

lemma tick_limit_10:
  "check_radiation 10
     (initial_state\<lparr>accumulated_radiation := 44, exposure_time := 4, alert := True,
        event_alert_log := [1, 0, 0, 0, 0, 0, 0, 0, 0, 0], log_index := 1\<rparr>)
     5 =
     Inr (initial_state\<lparr>accumulated_radiation := 49, exposure_time := 0, alert := True,
            event_radiation_log := [0, 5, 0, 0, 0, 0, 0, 0, 0, 0],
            event_alert_log := [1, 0, 0, 0, 0, 0, 0, 0, 0, 0], log_index := 2\<rparr>)"
  by (simp add: tick_eval initial_logs)

section \<open>Protection mode\<close>

text \<open>
  C1. The claim is that after every tick \<open>protection_mode\<close> is true exactly when the new
  \<open>alert_mode\<close> is critical. The branches for a critical and for a safe reading assign
  \<open>protection_mode\<close>; the branch for a moderate reading (line 34) does not, so the signal
  keeps its value. With \<open>limit = 100\<close>, the readings 200 and then 120 from the initial state
  leave \<open>alert_mode = 1\<close> (moderate) with \<open>protection_mode\<close> still true.
\<close>

theorem protection_mode_kept_on_moderate:
  "run 100 initial_state [200, 120] =
     Inr (initial_state\<lparr>accumulated_radiation := 320, alert_mode := 1,
            protection_mode := True, exposure_time := 1\<rparr>)"
  by (simp add: tick_initial_200 tick_critical_120)

section \<open>The trip test\<close>

text \<open>
  C2, as the claim states it, fails: the test of line 44 reads the signals
  \<open>exposure_time\<close> and \<open>accumulated_radiation\<close>, which hold the values from before the
  tick. With 270 accumulated, the reading 90 brings the new accumulated value to 360,
  above 300, and \<open>alert\<close> is false after that tick.
\<close>

theorem alert_ignores_new_values:
  "check_radiation 100 (initial_state\<lparr>accumulated_radiation := 270, alert_mode := 1\<rparr>) 90 =
     Inr (initial_state\<lparr>accumulated_radiation := 360, alert_mode := 0,
            exposure_time := 1\<rparr>) \<and>
   \<not> (alert (initial_state\<lparr>accumulated_radiation := 360, alert_mode := 0,
            exposure_time := 1\<rparr>) \<longleftrightarrow>
        exposure_time (initial_state\<lparr>accumulated_radiation := 360, alert_mode := 0,
            exposure_time := 1\<rparr>) \<ge> max_exposure_time \<or>
        accumulated_radiation (initial_state\<lparr>accumulated_radiation := 360,
            alert_mode := 0, exposure_time := 1\<rparr>) \<ge> 300)"
  using tick_270_90 by (simp add: initial_state_def max_exposure_time_def)

text \<open>
  C2, amended. After every tick that completes, \<open>alert\<close> is true exactly when, before the
  tick, \<open>exposure_time\<close> was at least \<open>max_exposure_time\<close> (3) or \<open>accumulated_radiation\<close>
  was at least 300.
\<close>

theorem alert_tests_previous_values:
  "check_radiation limit s r = Inr s' \<Longrightarrow>
     (alert s' \<longleftrightarrow>
        exposure_time s \<ge> max_exposure_time \<or> accumulated_radiation s \<ge> 300)"
  by (simp add: tick_alert trip_condition_def)

theorem alert_tests_previous_values_witness:
  "check_radiation 100
     (initial_state\<lparr>accumulated_radiation := 360, alert_mode := 0, exposure_time := 1\<rparr>)
     200 =
     Inr (initial_state\<lparr>accumulated_radiation := 560, alert_mode := 2,
            protection_mode := True, exposure_time := 0, alert := True,
            event_radiation_log := [200, 0, 0, 0, 0, 0, 0, 0, 0, 0],
            log_index := 1\<rparr>) \<and>
   alert (initial_state\<lparr>accumulated_radiation := 560, alert_mode := 2,
            protection_mode := True, exposure_time := 0, alert := True,
            event_radiation_log := [200, 0, 0, 0, 0, 0, 0, 0, 0, 0],
            log_index := 1\<rparr>) \<and>
   accumulated_radiation
     (initial_state\<lparr>accumulated_radiation := 360, alert_mode := 0, exposure_time := 1\<rparr>)
     \<ge> 300"
  using alert_tests_previous_values [OF tick_360_200] tick_360_200 by simp

section \<open>The exposure timer\<close>

text \<open>
  C3, as the claim states it, fails: line 39 reads the signal \<open>alert_mode\<close>, which holds
  the mode from before the tick. From the initial state the reading 200 makes the new
  mode critical, and \<open>exposure_time\<close> stays 0 instead of becoming 1.
\<close>

theorem exposure_ignores_new_mode:
  "check_radiation 100 initial_state 200 =
     Inr (initial_state\<lparr>accumulated_radiation := 200, alert_mode := 2,
            protection_mode := True\<rparr>) \<and>
   alert_mode (initial_state\<lparr>accumulated_radiation := 200, alert_mode := 2,
            protection_mode := True\<rparr>) \<noteq> 0 \<and>
   exposure_time (initial_state\<lparr>accumulated_radiation := 200, alert_mode := 2,
            protection_mode := True\<rparr>) \<noteq> exposure_time initial_state + 1"
  using tick_initial_200 by (simp add: initial_state_def)

text \<open>
  C3, amended. After every tick that completes, \<open>exposure_time\<close> is the previous value
  plus 1 if the mode before the tick was not safe, and 0 if the mode before the tick was
  safe.
\<close>

theorem exposure_follows_previous_mode:
  "check_radiation limit s r = Inr s' \<Longrightarrow>
     (alert_mode s \<noteq> 0 \<longrightarrow> exposure_time s' = exposure_time s + 1) \<and>
     (alert_mode s = 0 \<longrightarrow> exposure_time s' = 0)"
  by (simp add: tick_exposure_time)

theorem exposure_follows_previous_mode_witness:
  "check_radiation 100
     (initial_state\<lparr>accumulated_radiation := 200, alert_mode := 2, protection_mode := True\<rparr>)
     120 =
     Inr (initial_state\<lparr>accumulated_radiation := 320, alert_mode := 1,
            protection_mode := True, exposure_time := 1\<rparr>) \<and>
   alert_mode
     (initial_state\<lparr>accumulated_radiation := 200, alert_mode := 2, protection_mode := True\<rparr>)
     \<noteq> 0 \<and>
   exposure_time (initial_state\<lparr>accumulated_radiation := 320, alert_mode := 1,
            protection_mode := True, exposure_time := 1\<rparr>) =
   exposure_time
     (initial_state\<lparr>accumulated_radiation := 200, alert_mode := 2, protection_mode := True\<rparr>)
     + 1"
  using exposure_follows_previous_mode [OF tick_critical_120] tick_critical_120
  by (simp add: initial_state_def)

section \<open>The log\<close>

text \<open>
  C4, as the claim states it, fails: line 47 stores \<open>int(alert_mode)\<close>, the mode from
  before the tick. With 360 accumulated and a safe mode, the reading 200 trips, the new
  mode is critical (2), and the entry written at \<open>log_index\<close> holds the mode 0.
\<close>

theorem log_entry_holds_previous_mode:
  "check_radiation 100
     (initial_state\<lparr>accumulated_radiation := 360, alert_mode := 0, exposure_time := 1\<rparr>)
     200 =
     Inr (initial_state\<lparr>accumulated_radiation := 560, alert_mode := 2,
            protection_mode := True, exposure_time := 0, alert := True,
            event_radiation_log := [200, 0, 0, 0, 0, 0, 0, 0, 0, 0],
            log_index := 1\<rparr>) \<and>
   event_alert_log (initial_state\<lparr>accumulated_radiation := 560, alert_mode := 2,
            protection_mode := True, exposure_time := 0, alert := True,
            event_radiation_log := [200, 0, 0, 0, 0, 0, 0, 0, 0, 0],
            log_index := 1\<rparr>) !
     log_index
       (initial_state\<lparr>accumulated_radiation := 360, alert_mode := 0, exposure_time := 1\<rparr>) \<noteq>
   alert_mode (initial_state\<lparr>accumulated_radiation := 560, alert_mode := 2,
            protection_mode := True, exposure_time := 0, alert := True,
            event_radiation_log := [200, 0, 0, 0, 0, 0, 0, 0, 0, 0],
            log_index := 1\<rparr>)"
  using tick_360_200 by (simp add: initial_state_def initial_logs)

text \<open>
  C4, amended. On every tick that completes and on which the test of line 44 holds (on
  the values before the tick), the core writes the reading and the mode from before the
  tick at position \<open>log_index\<close> of the two logs and advances \<open>log_index\<close> to
  \<open>(log_index + 1) mod len(event_radiation_log)\<close>. Consequently, from a representable state
  with \<open>log_index = 0\<close>, after a run with capacity + k such ticks, k below the capacity,
  \<open>log_index\<close> is k and the buffer read circularly from position k holds exactly the last
  capacity entries, oldest first.
\<close>

theorem log_write_and_wraparound:
  "(check_radiation limit s r = Inr s' \<longrightarrow> trip_condition s \<longrightarrow>
      log_index s < length (event_radiation_log s) \<and>
      log_index s < length (event_alert_log s) \<and>
      event_radiation_log s' = (event_radiation_log s)[log_index s := r] \<and>
      event_alert_log s' = (event_alert_log s)[log_index s := alert_mode s] \<and>
      log_index s' = (log_index s + 1) mod length (event_radiation_log s)) \<and>
   (representable t \<longrightarrow> log_index t = 0 \<longrightarrow> run limit t rs = Inr t' \<longrightarrow>
      length (trip_entries limit t rs) = length (event_radiation_log t) + k \<longrightarrow>
      k < length (event_radiation_log t) \<longrightarrow>
      log_index t' = k \<and>
      rotate k (zip (event_radiation_log t') (event_alert_log t')) =
        drop k (trip_entries limit t rs))"
  using tick_trip_log [of limit s r s'] ring_wraparound [of t limit rs t' k]
  by blast

theorem log_write_and_wraparound_witness:
  "check_radiation 100
     (initial_state\<lparr>accumulated_radiation := 360, alert_mode := 0, exposure_time := 1\<rparr>)
     200 =
     Inr (initial_state\<lparr>accumulated_radiation := 560, alert_mode := 2,
            protection_mode := True, exposure_time := 0, alert := True,
            event_radiation_log := [200, 0, 0, 0, 0, 0, 0, 0, 0, 0],
            log_index := 1\<rparr>) \<and>
   trip_condition
     (initial_state\<lparr>accumulated_radiation := 360, alert_mode := 0, exposure_time := 1\<rparr>) \<and>
   representable (initial_state\<lparr>accumulated_radiation := 300\<rparr>) \<and>
   log_index (initial_state\<lparr>accumulated_radiation := 300\<rparr>) = 0 \<and>
   run 100 (initial_state\<lparr>accumulated_radiation := 300\<rparr>)
     [160, 1, 120, 2, 3, 4, 5, 6, 7, 8, 9] =
     Inr (initial_state\<lparr>accumulated_radiation := 625, exposure_time := 0, alert := True,
            event_radiation_log := [9, 1, 120, 2, 3, 4, 5, 6, 7, 8],
            event_alert_log := [0, 2, 0, 1, 0, 0, 0, 0, 0, 0],
            log_index := 1\<rparr>) \<and>
   length (trip_entries 100 (initial_state\<lparr>accumulated_radiation := 300\<rparr>)
     [160, 1, 120, 2, 3, 4, 5, 6, 7, 8, 9]) =
     length (event_radiation_log (initial_state\<lparr>accumulated_radiation := 300\<rparr>)) + 1 \<and>
   rotate 1 (zip [9, 1, 120, 2, 3, 4, 5, 6, 7, 8] [0, 2, 0, 1, 0, 0, 0, 0, 0, 0]) =
     [(1, 2), (120, 0), (2, 1), (3, 0), (4, 0), (5, 0), (6, 0), (7, 0), (8, 0), (9::nat, 0::nat)]"
proof -
  let ?s = "initial_state\<lparr>accumulated_radiation := 360, alert_mode := 0, exposure_time := 1\<rparr>"
  let ?s' = "initial_state\<lparr>accumulated_radiation := 560, alert_mode := 2,
            protection_mode := True, exposure_time := 0, alert := True,
            event_radiation_log := [200, 0, 0, 0, 0, 0, 0, 0, 0, 0],
            log_index := 1\<rparr>"
  let ?t = "initial_state\<lparr>accumulated_radiation := 300\<rparr>"
  let ?t' = "initial_state\<lparr>accumulated_radiation := 625, exposure_time := 0, alert := True,
            event_radiation_log := [9, 1, 120, 2, 3, 4, 5, 6, 7, 8],
            event_alert_log := [0, 2, 0, 1, 0, 0, 0, 0, 0, 0],
            log_index := 1\<rparr>"
  let ?rs = "[160, 1, 120, 2, 3, 4, 5, 6, 7, 8, 9] :: nat list"
  have trip: "trip_condition ?s"
    by (simp add: trip_condition_def initial_state_def)
  have cursor: "log_index ?t = 0"
    by (simp add: initial_state_def)
  have count: "length (trip_entries 100 ?t ?rs) = length (event_radiation_log ?t) + 1"
    by (simp only: entries_eleven_trips) (simp add: initial_state_def)
  have capacity: "1 < length (event_radiation_log ?t)"
    by (simp add: initial_state_def)
  from log_write_and_wraparound
    [where limit = 100 and s = ?s and r = 200 and s' = ?s'
       and t = ?t and rs = ?rs and t' = ?t' and k = 1]
  have "representable ?t \<longrightarrow> log_index ?t = 0 \<longrightarrow> run 100 ?t ?rs = Inr ?t' \<longrightarrow>
      length (trip_entries 100 ?t ?rs) = length (event_radiation_log ?t) + 1 \<longrightarrow>
      1 < length (event_radiation_log ?t) \<longrightarrow>
      log_index ?t' = 1 \<and>
      rotate 1 (zip (event_radiation_log ?t') (event_alert_log ?t')) =
        drop 1 (trip_entries 100 ?t ?rs)"
    by (rule conjunct2)
  with representable_300 cursor run_eleven_trips count capacity
  have "rotate 1 (zip (event_radiation_log ?t') (event_alert_log ?t')) =
      drop 1 (trip_entries 100 ?t ?rs)"
    by blast
  then have "rotate 1 (zip [9, 1, 120, 2, 3, 4, 5, 6, 7, 8] [0, 2, 0, 1, 0, 0, 0, 0, 0, 0]) =
      [(1, 2), (120, 0), (2, 1), (3, 0), (4, 0), (5, 0), (6, 0), (7, 0), (8, 0), (9::nat, 0::nat)]"
    by (simp only: entries_eleven_trips) (simp add: initial_state_def)
  with tick_360_200 trip representable_300 cursor run_eleven_trips count show ?thesis
    by (intro conjI)
qed

section \<open>The accumulator\<close>

text \<open>
  C5, as the claim states it, fails: the code clamps to \<open>accumulated_radiation.max - 1\<close>,
  and \<open>.max\<close> of a 16-bit \<open>intbv\<close> is the exclusive bound 65536, so the clamp is 65535, the
  largest value of the field, not 65534. With \<open>limit = 100\<close>, 656 readings of 100 from the
  initial state leave 65535 accumulated.
\<close>

theorem accumulated_reaches_field_maximum:
  "\<exists>s'. run 100 initial_state (replicate 656 100) = Inr s' \<and>
     accumulated_radiation s' = 65535 \<and> \<not> accumulated_radiation s' \<le> 65535 - 1"
  using saturating_run by auto

text \<open>
  C5, amended. For every sequence of readings applied tick by tick from the initial state
  on which every tick completes, \<open>accumulated_radiation\<close> is non-decreasing across ticks
  and never exceeds \<open>accumulated_radiation.max - 1 = 65535\<close>, the largest value of its 16-bit
  field: a tick sets it to the sum if that is at most 65535 and to 65535 otherwise.
\<close>

theorem accumulated_monotone_and_bounded:
  "run limit initial_state (rs @ rs') = Inr s' \<Longrightarrow>
     (\<exists>s. run limit initial_state rs = Inr s \<and>
        accumulated_radiation s \<le> accumulated_radiation s') \<and>
     accumulated_radiation s' \<le> accumulated_radiation_max - 1 \<and>
     accumulated_radiation_max - 1 = 65535 \<and>
     (\<forall>r s''. check_radiation limit s' r = Inr s'' \<longrightarrow>
        accumulated_radiation s'' = min (accumulated_radiation s' + r) 65535)"
proof -
  assume whole: "run limit initial_state (rs @ rs') = Inr s'"
  then obtain s where first: "run limit initial_state rs = Inr s"
    and rest: "run limit s rs' = Inr s'"
    by (auto simp: run_append split: sum.splits)
  from representable_initial first have "representable s"
    by (rule run_representable)
  from run_accumulated_mono [OF this rest] first tick_accumulated_min [of limit s']
  show ?thesis
    by (auto simp: accumulated_radiation_max_def)
qed

theorem accumulated_monotone_and_bounded_witness:
  "run 100 initial_state ([45, 75, 150] @ [90, 200]) =
     Inr (initial_state\<lparr>accumulated_radiation := 560, alert_mode := 2,
            protection_mode := True, alert := True,
            event_radiation_log := [200, 0, 0, 0, 0, 0, 0, 0, 0, 0],
            log_index := 1\<rparr>) \<and>
   run 100 initial_state [45, 75, 150] =
     Inr (initial_state\<lparr>accumulated_radiation := 270, alert_mode := 1\<rparr>) \<and>
   (270::nat) \<le> 560 \<and> (560::nat) \<le> 65535 \<and>
   (\<exists>s. run 100 initial_state [45, 75, 150] = Inr s \<and> accumulated_radiation s \<le> 560)"
  using accumulated_monotone_and_bounded [OF run_five_readings]
    run_five_readings run_three_readings
  by simp

section \<open>Totality\<close>

text \<open>
  C6. The claim is that a tick returns a state for every representable state and
  reading. The accumulator is guarded against leaving its bounds (lines 25 to 28); the
  counter \<open>exposure_time\<close> is not (line 40). On the representable state with
  \<open>exposure_time = 15\<close> and a moderate mode, the assignment of 16 to the 4-bit signal
  raises \<open>ValueError\<close>; seventeen readings of 120 from the initial state reach it.
\<close>

theorem tick_raises_at_full_exposure:
  "representable (initial_state\<lparr>alert_mode := 1, exposure_time := 15\<rparr>) \<and>
   check_radiation 100 (initial_state\<lparr>alert_mode := 1, exposure_time := 15\<rparr>) 120 =
     Inl ValueError \<and>
   run 100 initial_state
     [120, 120, 120, 120, 120, 120, 120, 120, 120, 120, 120, 120, 120, 120, 120, 120, 120] =
     Inl ValueError"
  by (intro conjI representable_full_exposure tick_full_exposure_120 run_seventeen_moderate)

section \<open>Classification\<close>

text \<open>
  C7. For every reading, \<open>alert_mode\<close> after the tick is 2 (critical) exactly when the
  reading is above \<open>limit + 50\<close>, 1 (moderate) exactly when it is above \<open>limit\<close> and at most
  \<open>limit + 50\<close>, and 0 (safe) exactly when it is at most \<open>limit\<close>. The mode is a function of
  the limit and the reading alone: any other state gives the same mode on that reading.
  The tick does return a state with that mode, for every representable state and 8-bit
  reading but those where the counter \<open>exposure_time\<close> would leave its bounds.
\<close>

theorem classification_of_reading:
  "(check_radiation limit s r = Inr s' \<longrightarrow>
     (alert_mode s' = 2 \<longleftrightarrow> r > limit + 50) \<and>
     (alert_mode s' = 1 \<longleftrightarrow> limit < r \<and> r \<le> limit + 50) \<and>
     (alert_mode s' = 0 \<longleftrightarrow> r \<le> limit) \<and>
     (\<forall>t t'. check_radiation limit t r = Inr t' \<longrightarrow> alert_mode t' = alert_mode s')) \<and>
   (representable s \<longrightarrow> r < radiation_level_max \<longrightarrow>
    alert_mode s = 0 \<or> exposure_time s + 1 < exposure_time_max \<longrightarrow>
     (\<exists>u. check_radiation limit s r = Inr u \<and>
        alert_mode u = (if r > limit + 50 then 2 else if r > limit then 1 else 0)))"
proof (intro conjI impI)
  assume "check_radiation limit s r = Inr s'"
  then show "alert_mode s' = 2 \<longleftrightarrow> r > limit + 50"
    and "alert_mode s' = 1 \<longleftrightarrow> limit < r \<and> r \<le> limit + 50"
    and "alert_mode s' = 0 \<longleftrightarrow> r \<le> limit"
    and "\<forall>t t'. check_radiation limit t r = Inr t' \<longrightarrow> alert_mode t' = alert_mode s'"
    by (auto dest!: tick_alert_mode split: if_splits)
next
  assume "representable s" and "r < radiation_level_max"
    and "alert_mode s = 0 \<or> exposure_time s + 1 < exposure_time_max"
  then obtain u where "check_radiation limit s r = Inr u"
    using tick_returns by blast
  with tick_alert_mode [OF this]
  show "\<exists>u. check_radiation limit s r = Inr u \<and>
      alert_mode u = (if r > limit + 50 then 2 else if r > limit then 1 else 0)"
    by blast
qed

theorem classification_of_reading_witness:
  "check_radiation 100 initial_state 200 =
     Inr (initial_state\<lparr>accumulated_radiation := 200, alert_mode := 2,
            protection_mode := True\<rparr>) \<and>
   alert_mode (initial_state\<lparr>accumulated_radiation := 200, alert_mode := 2,
            protection_mode := True\<rparr>) = 2 \<and>
   (200::nat) > 100 + 50 \<and>
   check_radiation 100 initial_state 150 =
     Inr (initial_state\<lparr>accumulated_radiation := 150, alert_mode := 1\<rparr>) \<and>
   alert_mode (initial_state\<lparr>accumulated_radiation := 150, alert_mode := 1\<rparr>) = 1 \<and>
   (100::nat) < 150 \<and> (150::nat) \<le> 100 + 50 \<and>
   representable initial_state \<and> (45::nat) < radiation_level_max \<and>
   alert_mode initial_state = 0 \<and>
   (\<exists>u. check_radiation 100 initial_state 45 = Inr u \<and> alert_mode u = 0) \<and>
   representable
     (initial_state\<lparr>accumulated_radiation := 360, alert_mode := 0, exposure_time := 1\<rparr>) \<and>
   (\<exists>u. check_radiation 100
          (initial_state\<lparr>accumulated_radiation := 360, alert_mode := 0, exposure_time := 1\<rparr>)
          120 = Inr u \<and> alert_mode u = 1)"
proof -
  let ?s = "initial_state\<lparr>accumulated_radiation := 360, alert_mode := 0, exposure_time := 1\<rparr>"
  have bound: "(45::nat) < radiation_level_max" "(120::nat) < radiation_level_max"
    by (simp_all add: radiation_level_max_def)
  have safe: "alert_mode initial_state = 0" "alert_mode ?s = 0"
    by (simp_all add: initial_state_def)
  from classification_of_reading
    [where limit = 100 and s = initial_state and r = 200
       and s' = "initial_state\<lparr>accumulated_radiation := 200, alert_mode := 2,
            protection_mode := True\<rparr>"]
    tick_initial_200
  have critical: "alert_mode (initial_state\<lparr>accumulated_radiation := 200, alert_mode := 2,
            protection_mode := True\<rparr>) = 2"
    by simp
  from classification_of_reading
    [where limit = 100 and s = initial_state and r = 150
       and s' = "initial_state\<lparr>accumulated_radiation := 150, alert_mode := 1\<rparr>"]
    tick_initial_150
  have moderate: "alert_mode (initial_state\<lparr>accumulated_radiation := 150, alert_mode := 1\<rparr>) = 1"
    by simp
  from classification_of_reading [where limit = 100 and s = initial_state and r = 45]
    representable_initial bound(1) safe(1)
  have first: "\<exists>u. check_radiation 100 initial_state 45 = Inr u \<and> alert_mode u = 0"
    by simp
  from classification_of_reading [where limit = 100 and s = ?s and r = 120]
    representable_360 bound(2) safe(2)
  have second: "\<exists>u. check_radiation 100 ?s 120 = Inr u \<and> alert_mode u = 1"
    by simp
  have order: "(200::nat) > 100 + 50" "(100::nat) < 150" "(150::nat) \<le> 100 + 50"
    by simp_all
  from tick_initial_200 critical order(1) tick_initial_150 moderate order(2,3)
    representable_initial bound(1) safe(1) first representable_360 second
  show ?thesis
    by (intro conjI)
qed

section \<open>The scenario of the test bench\<close>

text \<open>
  C8, as the claim states it, fails: the third reading, 150, is not above
  \<open>critical_limit = 150\<close>, so the third mode is moderate (1) and \<open>protection_mode\<close> stays
  false on that tick; and the log entry of the fifth tick holds the mode from before that
  tick, safe (0).
\<close>

theorem default_scenario_not_as_claimed:
  "map_sum id (map alert_mode) (run_trace 100 initial_state [45, 75, 150, 90, 200]) \<noteq>
     Inr [0, 0, 2, 0, 2] \<and>
   map_sum id (map protection_mode) (run_trace 100 initial_state [45, 75, 150, 90, 200]) \<noteq>
     Inr [False, False, True, False, True] \<and>
   map_sum id (\<lambda>s. event_alert_log s ! 0) (run 100 initial_state [45, 75, 150, 90, 200]) \<noteq>
     Inr 2"
  by (simp add: trace_default_scenario) (simp add: tick_eval initial_logs)

text \<open>
  C8, amended. From the initial state with \<open>limit = 100\<close>, the readings 45, 75, 150, 90,
  200 give the modes safe, safe, moderate, safe, critical (0, 0, 1, 0, 2),
  \<open>protection_mode\<close> false on ticks 1 to 4 and true on tick 5, \<open>alert\<close> false on ticks 1
  to 4 and true on tick 5, 560 accumulated after tick 5, and one log entry, written on
  tick 5 at index 0, holding the reading 200 and the mode 0, with \<open>log_index = 1\<close>.
\<close>

theorem default_scenario:
  "map_sum id (map alert_mode) (run_trace 100 initial_state [45, 75, 150, 90, 200]) =
     Inr [0, 0, 1, 0, 2] \<and>
   map_sum id (map protection_mode) (run_trace 100 initial_state [45, 75, 150, 90, 200]) =
     Inr [False, False, False, False, True] \<and>
   map_sum id (map alert) (run_trace 100 initial_state [45, 75, 150, 90, 200]) =
     Inr [False, False, False, False, True] \<and>
   map_sum id (map log_index) (run_trace 100 initial_state [45, 75, 150, 90, 200]) =
     Inr [0, 0, 0, 0, 1] \<and>
   trip_entries 100 initial_state [45, 75, 150, 90, 200] = [(200, 0)] \<and>
   run 100 initial_state [45, 75, 150, 90, 200] =
     Inr \<lparr>accumulated_radiation = 560, alert_mode = 2, protection_mode = True,
          exposure_time = 0, alert = True,
          event_radiation_log = [200, 0, 0, 0, 0, 0, 0, 0, 0, 0],
          event_alert_log = [0, 0, 0, 0, 0, 0, 0, 0, 0, 0],
          log_index = 1\<rparr>"
  by (simp add: trace_default_scenario) (simp add: tick_eval initial_logs)

section \<open>Ticks that do not trip\<close>

text \<open>
  C9, as the claim states it, fails: the trip condition of the claims is made on the
  values after the tick, and the test of line 44 reads the values before it. With
  \<open>limit = 10\<close>, the readings 11, 11, 11, 11, 0 from the initial state leave
  \<open>exposure_time = 4\<close> with 44 accumulated and a safe mode. On the next tick, with reading
  5, the counter is reset to 0 and 49 is accumulated, so the condition does not hold on
  the new values; yet \<open>alert\<close> is set, the reading is written to the log and \<open>log_index\<close>
  moves from 1 to 2.
\<close>

theorem log_written_without_new_trip:
  "run 10 initial_state [11, 11, 11, 11, 0] =
     Inr (initial_state\<lparr>accumulated_radiation := 44, exposure_time := 4, alert := True,
            event_alert_log := [1, 0, 0, 0, 0, 0, 0, 0, 0, 0], log_index := 1\<rparr>) \<and>
   check_radiation 10
     (initial_state\<lparr>accumulated_radiation := 44, exposure_time := 4, alert := True,
        event_alert_log := [1, 0, 0, 0, 0, 0, 0, 0, 0, 0], log_index := 1\<rparr>)
     5 =
     Inr (initial_state\<lparr>accumulated_radiation := 49, exposure_time := 0, alert := True,
            event_radiation_log := [0, 5, 0, 0, 0, 0, 0, 0, 0, 0],
            event_alert_log := [1, 0, 0, 0, 0, 0, 0, 0, 0, 0], log_index := 2\<rparr>) \<and>
   \<not> (exposure_time
         (initial_state\<lparr>accumulated_radiation := 49, exposure_time := 0, alert := True,
            event_radiation_log := [0, 5, 0, 0, 0, 0, 0, 0, 0, 0],
            event_alert_log := [1, 0, 0, 0, 0, 0, 0, 0, 0, 0], log_index := 2\<rparr>)
         \<ge> max_exposure_time \<or>
       accumulated_radiation
         (initial_state\<lparr>accumulated_radiation := 49, exposure_time := 0, alert := True,
            event_radiation_log := [0, 5, 0, 0, 0, 0, 0, 0, 0, 0],
            event_alert_log := [1, 0, 0, 0, 0, 0, 0, 0, 0, 0], log_index := 2\<rparr>)
         \<ge> 300) \<and>
   alert (initial_state\<lparr>accumulated_radiation := 49, exposure_time := 0, alert := True,
            event_radiation_log := [0, 5, 0, 0, 0, 0, 0, 0, 0, 0],
            event_alert_log := [1, 0, 0, 0, 0, 0, 0, 0, 0, 0], log_index := 2\<rparr>) \<and>
   event_radiation_log
     (initial_state\<lparr>accumulated_radiation := 49, exposure_time := 0, alert := True,
        event_radiation_log := [0, 5, 0, 0, 0, 0, 0, 0, 0, 0],
        event_alert_log := [1, 0, 0, 0, 0, 0, 0, 0, 0, 0], log_index := 2\<rparr>) \<noteq>
   event_radiation_log
     (initial_state\<lparr>accumulated_radiation := 44, exposure_time := 4, alert := True,
        event_alert_log := [1, 0, 0, 0, 0, 0, 0, 0, 0, 0], log_index := 1\<rparr>) \<and>
   log_index
     (initial_state\<lparr>accumulated_radiation := 49, exposure_time := 0, alert := True,
        event_radiation_log := [0, 5, 0, 0, 0, 0, 0, 0, 0, 0],
        event_alert_log := [1, 0, 0, 0, 0, 0, 0, 0, 0, 0], log_index := 2\<rparr>) \<noteq>
   log_index
     (initial_state\<lparr>accumulated_radiation := 44, exposure_time := 4, alert := True,
        event_alert_log := [1, 0, 0, 0, 0, 0, 0, 0, 0, 0], log_index := 1\<rparr>)"
  using run_limit_10 tick_limit_10
  by (simp add: initial_state_def initial_logs max_exposure_time_def)

text \<open>
  C9, amended. On every tick on which the test of line 44 does not hold on the values
  before the tick (\<open>exposure_time\<close> below 3 and \<open>accumulated_radiation\<close> below 300),
  \<open>alert\<close> is false after the tick and the two logs and \<open>log_index\<close> are unchanged; the
  logs and the cursor change only on a tick on which that test holds, which sets
  \<open>alert\<close>. Such a tick on a representable state always returns a state. With \<open>limit\<close> at
  least 100 and a state reached from the initial state, the same holds when the test is
  made on the values after the tick: a counter of 3 or more then implies 303 or more
  accumulated.
\<close>

theorem no_trip_leaves_log:
  "(check_radiation limit s r = Inr s' \<longrightarrow>
     (\<not> (exposure_time s \<ge> max_exposure_time \<or> accumulated_radiation s \<ge> 300) \<longrightarrow>
        \<not> alert s' \<and> event_radiation_log s' = event_radiation_log s \<and>
        event_alert_log s' = event_alert_log s \<and> log_index s' = log_index s) \<and>
     (\<not> alert s' \<longrightarrow>
        event_radiation_log s' = event_radiation_log s \<and>
        event_alert_log s' = event_alert_log s \<and> log_index s' = log_index s) \<and>
     (event_radiation_log s' \<noteq> event_radiation_log s \<or>
      event_alert_log s' \<noteq> event_alert_log s \<or> log_index s' \<noteq> log_index s \<longrightarrow>
        alert s' \<and> (exposure_time s \<ge> max_exposure_time \<or> accumulated_radiation s \<ge> 300)) \<and>
     (100 \<le> limit \<longrightarrow> (\<exists>rs. run limit initial_state rs = Inr s) \<longrightarrow>
      \<not> (exposure_time s' \<ge> max_exposure_time \<or> accumulated_radiation s' \<ge> 300) \<longrightarrow>
        \<not> alert s' \<and> event_radiation_log s' = event_radiation_log s \<and>
        event_alert_log s' = event_alert_log s \<and> log_index s' = log_index s)) \<and>
   (representable s \<longrightarrow>
    \<not> (exposure_time s \<ge> max_exposure_time \<or> accumulated_radiation s \<ge> 300) \<longrightarrow>
      (\<exists>u. check_radiation limit s r = Inr u \<and>
         \<not> alert u \<and> event_radiation_log u = event_radiation_log s \<and>
         event_alert_log u = event_alert_log s \<and> log_index u = log_index s))"
proof -
  have completed: "(\<not> (exposure_time s \<ge> max_exposure_time \<or> accumulated_radiation s \<ge> 300) \<longrightarrow>
        \<not> alert s' \<and> event_radiation_log s' = event_radiation_log s \<and>
        event_alert_log s' = event_alert_log s \<and> log_index s' = log_index s) \<and>
     (\<not> alert s' \<longrightarrow>
        event_radiation_log s' = event_radiation_log s \<and>
        event_alert_log s' = event_alert_log s \<and> log_index s' = log_index s) \<and>
     (event_radiation_log s' \<noteq> event_radiation_log s \<or>
      event_alert_log s' \<noteq> event_alert_log s \<or> log_index s' \<noteq> log_index s \<longrightarrow>
        alert s' \<and> (exposure_time s \<ge> max_exposure_time \<or> accumulated_radiation s \<ge> 300)) \<and>
     (100 \<le> limit \<longrightarrow> (\<exists>rs. run limit initial_state rs = Inr s) \<longrightarrow>
      \<not> (exposure_time s' \<ge> max_exposure_time \<or> accumulated_radiation s' \<ge> 300) \<longrightarrow>
        \<not> alert s' \<and> event_radiation_log s' = event_radiation_log s \<and>
        event_alert_log s' = event_alert_log s \<and> log_index s' = log_index s)"
    if tick: "check_radiation limit s r = Inr s'"
  proof -
    have frame: "\<not> alert s' \<and> event_radiation_log s' = event_radiation_log s \<and>
        event_alert_log s' = event_alert_log s \<and> log_index s' = log_index s"
      if "\<not> trip_condition s"
      using tick_alert [OF tick] tick_no_trip_log [OF tick that] that by simp
    have before: "\<not> trip_condition s"
      if limit: "100 \<le> limit" and reached: "\<exists>rs. run limit initial_state rs = Inr s"
        and after: "\<not> (exposure_time s' \<ge> max_exposure_time \<or> accumulated_radiation s' \<ge> 300)"
    proof -
      from reached obtain rs where run: "run limit initial_state rs = Inr s"
        by blast
      from representable_initial run have "representable s"
        by (rule run_representable)
      then have "accumulated_radiation s \<le> accumulated_radiation s'"
        using tick_accumulated_min [OF tick]
        by (simp add: representable_def accumulated_radiation_max_def)
      moreover from run_exposure_dose [OF limit run]
      have "101 * exposure_time s \<le> accumulated_radiation s"
        by (simp split: if_splits)
      ultimately show ?thesis
        using after by (simp add: trip_condition_def max_exposure_time_def)
    qed
    from frame before tick_alert [OF tick] show ?thesis
      unfolding trip_condition_def by blast
  qed
  have returns: "\<exists>u. check_radiation limit s r = Inr u \<and>
         \<not> alert u \<and> event_radiation_log u = event_radiation_log s \<and>
         event_alert_log u = event_alert_log s \<and> log_index u = log_index s"
    if rep: "representable s" and quiet: "\<not> trip_condition s"
  proof -
    from rep quiet obtain u where tick: "check_radiation limit s r = Inr u"
      using tick_returns_no_trip by blast
    with tick_alert [OF tick] tick_no_trip_log [OF tick quiet] quiet show ?thesis
      by auto
  qed
  from completed returns show ?thesis
    unfolding trip_condition_def by blast
qed

theorem no_trip_leaves_log_witness:
  "check_radiation 100 initial_state 45 =
     Inr (initial_state\<lparr>accumulated_radiation := 45\<rparr>) \<and>
   \<not> (exposure_time initial_state \<ge> max_exposure_time \<or>
      accumulated_radiation initial_state \<ge> 300) \<and>
   (100::nat) \<le> 100 \<and> run 100 initial_state [] = Inr initial_state \<and>
   \<not> (exposure_time (initial_state\<lparr>accumulated_radiation := 45\<rparr>) \<ge> max_exposure_time \<or>
      accumulated_radiation (initial_state\<lparr>accumulated_radiation := 45\<rparr>) \<ge> 300) \<and>
   \<not> alert (initial_state\<lparr>accumulated_radiation := 45\<rparr>) \<and>
   event_radiation_log (initial_state\<lparr>accumulated_radiation := 45\<rparr>) =
     event_radiation_log initial_state \<and>
   event_alert_log (initial_state\<lparr>accumulated_radiation := 45\<rparr>) =
     event_alert_log initial_state \<and>
   log_index (initial_state\<lparr>accumulated_radiation := 45\<rparr>) = log_index initial_state \<and>
   representable initial_state \<and>
   (\<exists>u. check_radiation 100 initial_state 45 = Inr u \<and> \<not> alert u \<and>
      event_radiation_log u = event_radiation_log initial_state \<and>
      event_alert_log u = event_alert_log initial_state \<and>
      log_index u = log_index initial_state)"
proof -
  let ?s' = "initial_state\<lparr>accumulated_radiation := 45\<rparr>"
  have quiet: "\<not> (exposure_time initial_state \<ge> max_exposure_time \<or>
      accumulated_radiation initial_state \<ge> 300)"
    by (simp add: initial_state_def max_exposure_time_def)
  have quiet': "\<not> (exposure_time ?s' \<ge> max_exposure_time \<or> accumulated_radiation ?s' \<ge> 300)"
    by (simp add: initial_state_def max_exposure_time_def)
  have reached: "run 100 initial_state [] = Inr initial_state"
    by simp
  note inst = no_trip_leaves_log
    [where limit = 100 and s = initial_state and r = 45 and s' = ?s']
  from inst tick_initial_45 quiet
  have frame: "\<not> alert ?s'" "event_radiation_log ?s' = event_radiation_log initial_state"
    "event_alert_log ?s' = event_alert_log initial_state"
    "log_index ?s' = log_index initial_state"
    by blast+
  from inst representable_initial quiet
  have returns: "\<exists>u. check_radiation 100 initial_state 45 = Inr u \<and> \<not> alert u \<and>
      event_radiation_log u = event_radiation_log initial_state \<and>
      event_alert_log u = event_alert_log initial_state \<and>
      log_index u = log_index initial_state"
    by blast
  have "(100::nat) \<le> 100"
    by simp
  with tick_initial_45 quiet reached quiet' frame representable_initial returns
  show ?thesis
    by (intro conjI)
qed

section \<open>The two logs together\<close>

text \<open>
  C10, as the claim states it, fails in "on every trip tick the core writes": the tick
  has to return, and the test that makes a tick a trip tick is the one of line 44, on
  the values before the tick. With 270 accumulated, the reading 90 makes the trip
  condition hold on the new values (360 accumulated), and neither log is written. On
  the representable state with \<open>exposure_time = 15\<close> and a moderate mode, the test of line
  44 holds, and the tick raises \<open>ValueError\<close> at line 40 and writes nothing.
\<close>

theorem trip_tick_without_log_write:
  "check_radiation 100 (initial_state\<lparr>accumulated_radiation := 270, alert_mode := 1\<rparr>) 90 =
     Inr (initial_state\<lparr>accumulated_radiation := 360, alert_mode := 0,
            exposure_time := 1\<rparr>) \<and>
   accumulated_radiation (initial_state\<lparr>accumulated_radiation := 360, alert_mode := 0,
            exposure_time := 1\<rparr>) \<ge> 300 \<and>
   event_radiation_log (initial_state\<lparr>accumulated_radiation := 360, alert_mode := 0,
            exposure_time := 1\<rparr>) =
     event_radiation_log (initial_state\<lparr>accumulated_radiation := 270, alert_mode := 1\<rparr>) \<and>
   event_alert_log (initial_state\<lparr>accumulated_radiation := 360, alert_mode := 0,
            exposure_time := 1\<rparr>) =
     event_alert_log (initial_state\<lparr>accumulated_radiation := 270, alert_mode := 1\<rparr>) \<and>
   representable (initial_state\<lparr>alert_mode := 1, exposure_time := 15\<rparr>) \<and>
   trip_condition (initial_state\<lparr>alert_mode := 1, exposure_time := 15\<rparr>) \<and>
   check_radiation 100 (initial_state\<lparr>alert_mode := 1, exposure_time := 15\<rparr>) 120 =
     Inl ValueError"
proof -
  have "accumulated_radiation (initial_state\<lparr>accumulated_radiation := 360, alert_mode := 0,
            exposure_time := 1\<rparr>) \<ge> 300"
    and "event_radiation_log (initial_state\<lparr>accumulated_radiation := 360, alert_mode := 0,
            exposure_time := 1\<rparr>) =
     event_radiation_log (initial_state\<lparr>accumulated_radiation := 270, alert_mode := 1\<rparr>)"
    and "event_alert_log (initial_state\<lparr>accumulated_radiation := 360, alert_mode := 0,
            exposure_time := 1\<rparr>) =
     event_alert_log (initial_state\<lparr>accumulated_radiation := 270, alert_mode := 1\<rparr>)"
    and "trip_condition (initial_state\<lparr>alert_mode := 1, exposure_time := 15\<rparr>)"
    by (simp_all add: initial_state_def trip_condition_def max_exposure_time_def)
  with tick_270_90 representable_full_exposure tick_full_exposure_120 show ?thesis
    by (intro conjI)
qed

text \<open>
  C10, amended. On every tick that completes and on which the test of line 44 holds on
  the values before the tick, the core writes \<open>event_radiation_log\<close> and
  \<open>event_alert_log\<close> at the same index, the current \<open>log_index\<close>, and on every tick that
  completes and on which that test does not hold it writes neither. A tick on a
  representable state with an 8-bit reading completes unless the counter
  \<open>exposure_time\<close> would leave its bounds. Therefore, after any run from a representable
  state, every index of the logs either holds in both logs the two halves of one record,
  the last one written there, or was written in neither log.
\<close>

theorem logs_written_in_lockstep:
  "(check_radiation limit s r = Inr s' \<longrightarrow>
      (trip_condition s \<longrightarrow>
         log_index s < length (event_radiation_log s) \<and>
         log_index s < length (event_alert_log s) \<and>
         event_radiation_log s' = (event_radiation_log s)[log_index s := r] \<and>
         event_alert_log s' = (event_alert_log s)[log_index s := alert_mode s]) \<and>
      (\<not> trip_condition s \<longrightarrow>
         event_radiation_log s' = event_radiation_log s \<and>
         event_alert_log s' = event_alert_log s)) \<and>
   (representable t \<longrightarrow> run limit t rs = Inr t' \<longrightarrow>
    i < length (event_radiation_log t) \<longrightarrow>
      (\<exists>m < length (trip_entries limit t rs).
          (log_index t + m) mod length (event_radiation_log t) = i \<and>
          length (trip_entries limit t rs) \<le> m + length (event_radiation_log t) \<and>
          (event_radiation_log t' ! i, event_alert_log t' ! i) =
            trip_entries limit t rs ! m) \<or>
      ((\<forall>m < length (trip_entries limit t rs).
          (log_index t + m) mod length (event_radiation_log t) \<noteq> i) \<and>
       event_radiation_log t' ! i = event_radiation_log t ! i \<and>
       event_alert_log t' ! i = event_alert_log t ! i)) \<and>
   (representable s \<longrightarrow> r < radiation_level_max \<longrightarrow>
    alert_mode s = 0 \<or> exposure_time s + 1 < exposure_time_max \<longrightarrow>
      (\<exists>u. check_radiation limit s r = Inr u \<and>
         (trip_condition s \<longrightarrow>
            event_radiation_log u = (event_radiation_log s)[log_index s := r] \<and>
            event_alert_log u = (event_alert_log s)[log_index s := alert_mode s]) \<and>
         (\<not> trip_condition s \<longrightarrow>
            event_radiation_log u = event_radiation_log s \<and>
            event_alert_log u = event_alert_log s)))"
proof -
  have returns: "\<exists>u. check_radiation limit s r = Inr u \<and>
         (trip_condition s \<longrightarrow>
            event_radiation_log u = (event_radiation_log s)[log_index s := r] \<and>
            event_alert_log u = (event_alert_log s)[log_index s := alert_mode s]) \<and>
         (\<not> trip_condition s \<longrightarrow>
            event_radiation_log u = event_radiation_log s \<and>
            event_alert_log u = event_alert_log s)"
    if "representable s" and "r < radiation_level_max"
      and "alert_mode s = 0 \<or> exposure_time s + 1 < exposure_time_max"
  proof -
    from that obtain u where tick: "check_radiation limit s r = Inr u"
      using tick_returns by blast
    with tick_trip_log [OF tick] tick_no_trip_log [OF tick] show ?thesis
      by blast
  qed
  with tick_trip_log [of limit s r s'] tick_no_trip_log [of limit s r s']
    ring_entry_pairs [of t limit rs t' i]
  show ?thesis
    by blast
qed


theorem logs_written_in_lockstep_witness:
  "representable (initial_state\<lparr>accumulated_radiation := 300\<rparr>) \<and>
   run 100 (initial_state\<lparr>accumulated_radiation := 300\<rparr>)
     [160, 1, 120, 2, 3, 4, 5, 6, 7, 8, 9] =
     Inr (initial_state\<lparr>accumulated_radiation := 625, exposure_time := 0, alert := True,
            event_radiation_log := [9, 1, 120, 2, 3, 4, 5, 6, 7, 8],
            event_alert_log := [0, 2, 0, 1, 0, 0, 0, 0, 0, 0],
            log_index := 1\<rparr>) \<and>
   3 < length (event_radiation_log (initial_state\<lparr>accumulated_radiation := 300\<rparr>)) \<and>
   ([9, 1, 120, 2, 3, 4, 5, 6, 7, 8] ! 3, [0, 2, 0, 1, 0, 0, 0, 0, 0, 0] ! 3) =
     (2::nat, 1::nat) \<and>
   trip_entries 100 (initial_state\<lparr>accumulated_radiation := 300\<rparr>)
     [160, 1, 120, 2, 3, 4, 5, 6, 7, 8, 9] ! 3 = (2, 1) \<and>
   ((\<exists>m < length (trip_entries 100 (initial_state\<lparr>accumulated_radiation := 300\<rparr>)
              [160, 1, 120, 2, 3, 4, 5, 6, 7, 8, 9]).
        (log_index (initial_state\<lparr>accumulated_radiation := 300\<rparr>) + m) mod
          length (event_radiation_log (initial_state\<lparr>accumulated_radiation := 300\<rparr>)) = 3 \<and>
        ([9, 1, 120, 2, 3, 4, 5, 6, 7, 8] ! 3, [0, 2, 0, 1, 0, 0, 0, 0, 0, 0] ! 3) =
          trip_entries 100 (initial_state\<lparr>accumulated_radiation := 300\<rparr>)
            [160, 1, 120, 2, 3, 4, 5, 6, 7, 8, 9] ! m) \<or>
    [9, 1, 120, 2, 3, 4, 5, 6, 7, 8] ! 3 =
      event_radiation_log (initial_state\<lparr>accumulated_radiation := 300\<rparr>) ! 3) \<and>
   (160::nat) < radiation_level_max \<and>
   alert_mode (initial_state\<lparr>accumulated_radiation := 300\<rparr>) = 0 \<and>
   trip_condition (initial_state\<lparr>accumulated_radiation := 300\<rparr>) \<and>
   (\<exists>u. check_radiation 100 (initial_state\<lparr>accumulated_radiation := 300\<rparr>) 160 = Inr u \<and>
      event_radiation_log u =
        (event_radiation_log (initial_state\<lparr>accumulated_radiation := 300\<rparr>))
          [log_index (initial_state\<lparr>accumulated_radiation := 300\<rparr>) := 160] \<and>
      event_alert_log u =
        (event_alert_log (initial_state\<lparr>accumulated_radiation := 300\<rparr>))
          [log_index (initial_state\<lparr>accumulated_radiation := 300\<rparr>) :=
             alert_mode (initial_state\<lparr>accumulated_radiation := 300\<rparr>)])"
proof -
  let ?t = "initial_state\<lparr>accumulated_radiation := 300\<rparr>"
  let ?t' = "initial_state\<lparr>accumulated_radiation := 625, exposure_time := 0, alert := True,
            event_radiation_log := [9, 1, 120, 2, 3, 4, 5, 6, 7, 8],
            event_alert_log := [0, 2, 0, 1, 0, 0, 0, 0, 0, 0],
            log_index := 1\<rparr>"
  let ?rs = "[160, 1, 120, 2, 3, 4, 5, 6, 7, 8, 9] :: nat list"
  have index: "3 < length (event_radiation_log ?t)"
    by (simp add: initial_state_def)
  have cell: "([9, 1, 120, 2, 3, 4, 5, 6, 7, 8] ! 3, [0, 2, 0, 1, 0, 0, 0, 0, 0, 0] ! 3) =
      (2::nat, 1::nat)"
    by simp
  have entry: "trip_entries 100 ?t ?rs ! 3 = (2, 1)"
    by (simp only: entries_eleven_trips) simp
  have logs: "event_radiation_log ?t' = [9, 1, 120, 2, 3, 4, 5, 6, 7, 8]"
    "event_alert_log ?t' = [0, 2, 0, 1, 0, 0, 0, 0, 0, 0]"
    by simp_all
  from logs_written_in_lockstep
    [where limit = 100 and s = ?t and r = 0 and s' = ?t
       and t = ?t and rs = ?rs and t' = ?t' and i = 3]
  have "representable ?t \<longrightarrow> run 100 ?t ?rs = Inr ?t' \<longrightarrow>
      3 < length (event_radiation_log ?t) \<longrightarrow>
      (\<exists>m < length (trip_entries 100 ?t ?rs).
          (log_index ?t + m) mod length (event_radiation_log ?t) = 3 \<and>
          length (trip_entries 100 ?t ?rs) \<le> m + length (event_radiation_log ?t) \<and>
          (event_radiation_log ?t' ! 3, event_alert_log ?t' ! 3) =
            trip_entries 100 ?t ?rs ! m) \<or>
      ((\<forall>m < length (trip_entries 100 ?t ?rs).
          (log_index ?t + m) mod length (event_radiation_log ?t) \<noteq> 3) \<and>
       event_radiation_log ?t' ! 3 = event_radiation_log ?t ! 3 \<and>
       event_alert_log ?t' ! 3 = event_alert_log ?t ! 3)"
    by (rule conjunct1 [OF conjunct2])
  with representable_300 run_eleven_trips index
  have "(\<exists>m < length (trip_entries 100 ?t ?rs).
        (log_index ?t + m) mod length (event_radiation_log ?t) = 3 \<and>
        (event_radiation_log ?t' ! 3, event_alert_log ?t' ! 3) =
          trip_entries 100 ?t ?rs ! m) \<or>
      event_radiation_log ?t' ! 3 = event_radiation_log ?t ! 3"
    by blast
  then have "(\<exists>m < length (trip_entries 100 ?t ?rs).
        (log_index ?t + m) mod length (event_radiation_log ?t) = 3 \<and>
        ([9, 1, 120, 2, 3, 4, 5, 6, 7, 8] ! 3, [0, 2, 0, 1, 0, 0, 0, 0, 0, 0] ! 3) =
          trip_entries 100 ?t ?rs ! m) \<or>
      [9, 1, 120, 2, 3, 4, 5, 6, 7, 8] ! 3 = event_radiation_log ?t ! 3"
    unfolding logs .
  note cells = this
  have bound: "(160::nat) < radiation_level_max"
    by (simp add: radiation_level_max_def)
  have safe: "alert_mode ?t = 0"
    by (simp add: initial_state_def)
  have trip: "trip_condition ?t"
    by (simp add: trip_condition_def initial_state_def)
  from logs_written_in_lockstep [where limit = 100 and s = ?t and r = 160]
    representable_300 bound safe trip
  have returns: "\<exists>u. check_radiation 100 ?t 160 = Inr u \<and>
      event_radiation_log u = (event_radiation_log ?t)[log_index ?t := 160] \<and>
      event_alert_log u = (event_alert_log ?t)[log_index ?t := alert_mode ?t]"
    by blast
  from representable_300 run_eleven_trips index cell entry cells bound safe trip returns
  show ?thesis
    by (intro conjI)
qed

end
